theory Spec2Isabelle
  imports Complex_Main
begin

section \<open>Numbers, errors and documents\<close>

text \<open>
  Python floats are modelled as exact reals: the arithmetic of the program is kept, the
  rounding error of binary floating point is not. Python ints are \<open>int\<close>.
  Every exception the modelled code can raise is a value of \<open>py_error\<close>; a function
  that may raise returns \<open>py_error + 'a\<close>, with \<open>Inl\<close> for the exception.
  Functions keep the names of the source, without the leading underscore of the private
  ones (\<open>_load\<close> is \<open>load\<close>, \<open>_kelly_size\<close> is \<open>kelly_size\<close>).
\<close>

datatype kill_reason = TotalLossLimit real | DailyLossLimit real

datatype py_error =
    KillSwitchTriggered kill_reason
  | TypeError
  | ValueError
  | KeyError
  | ZeroDivisionError

text \<open>
  Python's \<open>round(x)\<close> rounds to the nearest integer and, halfway between two integers,
  to the even one; \<open>round(x, n)\<close> does so at the n-th decimal.
\<close>

definition py_round :: "real \<Rightarrow> int" where
  "py_round x =
     (let f = \<lfloor>x\<rfloor>; d = x - of_int f
      in if d < 1 / 2 then f
         else if 1 / 2 < d then f + 1
         else if even f then f else f + 1)"

definition round_nd :: "nat \<Rightarrow> real \<Rightarrow> real" where
  "round_nd n x = of_int (py_round (x * 10 ^ n)) / 10 ^ n"

text \<open>A JSON document as \<open>json.load\<close> returns it.\<close>

datatype json =
    JNull
  | JBool bool
  | JInt int
  | JFloat real
  | JStr string
  | JArr "json list"
  | JObj "(string \<times> json) list"

text \<open>
  \<open>doc[key]\<close> with a string key: a dict looks the key up and raises KeyError when it is
  missing; a list, a string, a number, a bool and None raise TypeError.
\<close>

fun py_getitem :: "json \<Rightarrow> string \<Rightarrow> py_error + json" where
  "py_getitem (JObj kvs) k = (case map_of kvs k of None \<Rightarrow> Inl KeyError | Some v \<Rightarrow> Inr v)"
| "py_getitem _ k = Inl TypeError"

section \<open>State store (core/state.py)\<close>

subsection \<open>Trade and ledger\<close>

text \<open>
  The dataclass \<open>Trade\<close>, as the dict \<open>asdict\<close> makes of it. The fields \<open>id\<close> and
  \<open>size\<close> are renamed \<open>trade_id\<close> and \<open>size_shares\<close>.
\<close>

record trade =
  trade_id :: string
  timestamp :: string
  market_id :: string
  token_id :: string
  direction :: string
  outcome :: string
  entry_price :: real
  size_shares :: real
  amount_usd :: real
  order_id :: "string option"
  tx_hash :: "string option"
  strategy :: string
  resolved :: bool
  result :: "string option"
  pnl :: "real option"
  resolution_time :: "string option"

text \<open>The dict \<open>totals\<close>; its key \<open>pnl\<close> is the field \<open>pnl_total\<close>.\<close>

record totals =
  pnl_total :: real
  wins :: int
  losses :: int
  total_trades :: int

record tracking =
  last_signal :: "string option"
  last_market_id :: "string option"
  last_trade_time :: "string option"

text \<open>The dict \<open>_state\<close>. The key \<open>last_saved\<close> is absent until the first save.\<close>

record ledger =
  version :: int
  created :: string
  trades :: "trade list"
  totals :: totals
  tracking :: tracking
  metadata :: "(string \<times> json) list"
  last_saved :: "string option"

definition default_state :: "string \<Rightarrow> ledger" where
  "default_state now =
     \<lparr> version = 1, created = now, trades = [],
       totals = \<lparr> pnl_total = 0, wins = 0, losses = 0, total_trades = 0 \<rparr>,
       tracking = \<lparr> last_signal = None, last_market_id = None, last_trade_time = None \<rparr>,
       metadata = [], last_saved = None \<rparr>"

subsection \<open>The persisted document\<close>

definition opt_str_json :: "string option \<Rightarrow> json" where
  "opt_str_json s = (case s of None \<Rightarrow> JNull | Some x \<Rightarrow> JStr x)"

definition opt_float_json :: "real option \<Rightarrow> json" where
  "opt_float_json s = (case s of None \<Rightarrow> JNull | Some x \<Rightarrow> JFloat x)"

definition trade_json :: "trade \<Rightarrow> json" where
  "trade_json t = JObj
     [(''id'', JStr (trade_id t)), (''timestamp'', JStr (timestamp t)),
      (''market_id'', JStr (market_id t)), (''token_id'', JStr (token_id t)),
      (''direction'', JStr (direction t)), (''outcome'', JStr (outcome t)),
      (''entry_price'', JFloat (entry_price t)), (''size'', JFloat (size_shares t)),
      (''amount_usd'', JFloat (amount_usd t)), (''order_id'', opt_str_json (order_id t)),
      (''tx_hash'', opt_str_json (tx_hash t)), (''strategy'', JStr (strategy t)),
      (''resolved'', JBool (resolved t)), (''result'', opt_str_json (result t)),
      (''pnl'', opt_float_json (pnl t)),
      (''resolution_time'', opt_str_json (resolution_time t))]"

definition totals_json :: "totals \<Rightarrow> json" where
  "totals_json t = JObj
     [(''pnl'', JFloat (pnl_total t)), (''wins'', JInt (wins t)),
      (''losses'', JInt (losses t)), (''total_trades'', JInt (total_trades t))]"

definition tracking_json :: "tracking \<Rightarrow> json" where
  "tracking_json t = JObj
     [(''last_signal'', opt_str_json (last_signal t)),
      (''last_market_id'', opt_str_json (last_market_id t)),
      (''last_trade_time'', opt_str_json (last_trade_time t))]"

text \<open>The dict \<open>_state\<close> as a document, its keys in the order Python inserted them.\<close>

definition ledger_json :: "ledger \<Rightarrow> json" where
  "ledger_json l = JObj
     ([(''version'', JInt (version l)), (''created'', JStr (created l)),
       (''trades'', JArr (map trade_json (trades l))),
       (''totals'', totals_json (totals l)),
       (''tracking'', tracking_json (tracking l)),
       (''metadata'', JObj (metadata l))]
      @ (case last_saved l of None \<Rightarrow> [] | Some s \<Rightarrow> [(''last_saved'', JStr s)]))"

text \<open>
  What \<open>state_file\<close> holds: no file, a file \<open>json.load\<close> rejects with JSONDecodeError,
  or a file that parses to a document.
\<close>

datatype file_content = NoFile | NotJson | Doc json

text \<open>The StateManager: the dict \<open>_state\<close> and the content of \<open>state_file\<close>.\<close>

record store =
  st :: ledger
  disk :: file_content

subsection \<open>Operations\<close>

text \<open>
  \<open>_load\<close>: a missing file and a file that does not parse give the default state; a
  parsed document is returned as it is once \<open>state['totals']['total_trades']\<close> has been
  read for the log line. Only JSONDecodeError and KeyError are caught.
\<close>

definition load :: "string \<Rightarrow> file_content \<Rightarrow> py_error + json" where
  "load now f =
     (case f of
        NoFile \<Rightarrow> Inr (ledger_json (default_state now))
      | NotJson \<Rightarrow> Inr (ledger_json (default_state now))
      | Doc state \<Rightarrow>
          (case py_getitem state ''totals'' of
             Inl KeyError \<Rightarrow> Inr (ledger_json (default_state now))
           | Inl e \<Rightarrow> Inl e
           | Inr t \<Rightarrow>
               (case py_getitem t ''total_trades'' of
                  Inl KeyError \<Rightarrow> Inr (ledger_json (default_state now))
                | Inl e \<Rightarrow> Inl e
                | Inr _ \<Rightarrow> Inr state)))"

text \<open>
  \<open>save\<close>: stamps \<open>last_saved\<close>, writes the document to the temporary file and renames it
  onto \<open>state_file\<close>, whose content is then the document.
\<close>

definition save :: "string \<Rightarrow> store \<Rightarrow> store" where
  "save now s =
     (let l = (st s)\<lparr> last_saved := Some now \<rparr>
      in s\<lparr> st := l, disk := Doc (ledger_json l) \<rparr>)"

definition add_trade :: "string \<Rightarrow> trade \<Rightarrow> store \<Rightarrow> store" where
  "add_trade now t s =
     (let l = st s;
          l1 = l\<lparr> trades := trades l @ [t] \<rparr>;
          l2 = l1\<lparr> totals := (totals l1)\<lparr> total_trades := total_trades (totals l1) + 1 \<rparr> \<rparr>;
          l3 = l2\<lparr> tracking := (tracking l2)\<lparr> last_trade_time := Some (timestamp t) \<rparr> \<rparr>;
          l4 = l3\<lparr> tracking := (tracking l3)\<lparr> last_market_id := Some (market_id t) \<rparr> \<rparr>
      in save now (s\<lparr> st := l4 \<rparr>))"

text \<open>
  The loop of \<open>resolve_trade\<close> over the trades: the first trade with the id is rewritten,
  whatever its \<open>resolved\<close> flag; \<open>None\<close> when no trade has the id.
\<close>

fun resolve_first :: "string \<Rightarrow> string \<Rightarrow> string \<Rightarrow> real \<Rightarrow> trade list \<Rightarrow> trade list option" where
  "resolve_first now tid res p [] = None"
| "resolve_first now tid res p (t # ts) =
     (if trade_id t = tid
      then Some (t\<lparr> resolved := True, result := Some res,
                    pnl := Some (round_nd 4 p), resolution_time := Some now \<rparr> # ts)
      else map_option ((#) t) (resolve_first now tid res p ts))"

definition resolve_trade :: "string \<Rightarrow> string \<Rightarrow> string \<Rightarrow> real \<Rightarrow> store \<Rightarrow> store" where
  "resolve_trade now tid res p s =
     (case resolve_first now tid res p (trades (st s)) of
        None \<Rightarrow> s
      | Some ts \<Rightarrow>
          (let l = st s;
               l1 = l\<lparr> trades := ts \<rparr>;
               l2 = l1\<lparr> totals := (totals l1)\<lparr> pnl_total := pnl_total (totals l1) + p \<rparr> \<rparr>;
               l3 = (if res = ''win''
                     then l2\<lparr> totals := (totals l2)\<lparr> wins := wins (totals l2) + 1 \<rparr> \<rparr>
                     else l2\<lparr> totals := (totals l2)\<lparr> losses := losses (totals l2) + 1 \<rparr> \<rparr>)
           in save now (s\<lparr> st := l3 \<rparr>)))"

definition get_unresolved_trades :: "ledger \<Rightarrow> trade list" where
  "get_unresolved_trades l = filter (\<lambda>t. \<not> resolved t) (trades l)"

section \<open>Risk manager (core/risk.py)\<close>

text \<open>
  The configuration dict, read with \<open>config.get(key, default)\<close>; \<open>default_config\<close>
  holds the defaults of the constructor. \<open>win_rates\<close> is the dict of win probabilities,
  keyed by \<open>strategy_direction\<close>.
\<close>

record config =
  base_bet :: real
  min_bet :: real
  max_bet :: real
  sizing_mode :: string
  bankroll_percent :: real
  win_rates :: "(string \<times> real) list"
  default_win_rate :: real
  max_daily_loss :: real
  max_total_loss :: real
  max_open_positions :: int
  max_consecutive_losses :: int
  max_entry_price :: real
  min_spread :: real
  max_spread :: real

definition default_config :: config where
  "default_config =
     \<lparr> base_bet = 5, min_bet = 3, max_bet = 50, sizing_mode = ''fixed'',
       bankroll_percent = 0.02, win_rates = [], default_win_rate = 0.55,
       max_daily_loss = 100, max_total_loss = 500, max_open_positions = 3,
       max_consecutive_losses = 5, max_entry_price = 0.60, min_spread = 0.01,
       max_spread = 0.10 \<rparr>"

text \<open>
  The RiskManager: its configuration and the in-memory counter \<open>_consecutive_losses\<close>.
  The StateManager it reads is passed to the functions that use it.
\<close>

record risk_manager =
  cfg :: config
  consecutive_losses :: int

subsection \<open>Position sizing\<close>

definition fixed_size :: "config \<Rightarrow> real \<Rightarrow> real" where
  "fixed_size c entry =
     (if entry < 0.40 then base_bet c * 1.5
      else if entry < 0.50 then base_bet c
      else if entry < 0.55 then base_bet c * 0.75
      else base_bet c * 0.5)"

definition percent_size :: "config \<Rightarrow> real \<Rightarrow> real" where
  "percent_size c bankroll = bankroll * bankroll_percent c"

definition kelly_size :: "config \<Rightarrow> real \<Rightarrow> real \<Rightarrow> real \<Rightarrow> real \<Rightarrow> real" where
  "kelly_size c bankroll win_rate entry fraction =
     (if win_rate \<le> 0.5 \<or> entry \<le> 0 \<or> entry \<ge> 1 then min_bet c
      else
        (let b = (1 - entry) / entry;
             p = win_rate;
             q = 1 - p;
             kelly_full = (b * p - q) / b
         in if kelly_full \<le> 0 then min_bet c
            else
              (let kelly_fraction = kelly_full * fraction;
                   bet = kelly_fraction * bankroll;
                   max_bankroll_bet = bankroll * 0.10
               in min bet max_bankroll_bet)))"

text \<open>
  The mode dispatch of \<open>get_position_size\<close>. \<open>bankroll\<close> is optional, and
  \<open>None\<close> and \<open>0\<close> are both false in \<open>and bankroll\<close>.
\<close>

definition truthy :: "real option \<Rightarrow> bool" where
  "truthy b = (case b of None \<Rightarrow> False | Some x \<Rightarrow> x \<noteq> 0)"

definition mode_size :: "config \<Rightarrow> real \<Rightarrow> string \<Rightarrow> string \<Rightarrow> real option \<Rightarrow> real" where
  "mode_size c entry dir strat bankroll =
     (if sizing_mode c = ''fixed'' then fixed_size c entry
      else if sizing_mode c = ''percent'' \<and> truthy bankroll
        then percent_size c (the bankroll)
      else if sizing_mode c = ''kelly'' \<and> truthy bankroll
        then (let win_rate = (case map_of (win_rates c) (strat @ ''_'' @ dir) of
                                None \<Rightarrow> default_win_rate c | Some w \<Rightarrow> w)
              in kelly_size c (the bankroll) win_rate entry 0.5)
      else base_bet c)"

text \<open>The line \<open>size = max(self.min_bet, min(self.max_bet, size))\<close>.\<close>

definition apply_limits :: "config \<Rightarrow> real \<Rightarrow> real" where
  "apply_limits c sz = max (min_bet c) (min (max_bet c) sz)"

text \<open>The reduction after three or more consecutive losses.\<close>

definition loss_reduction :: "int \<Rightarrow> real \<Rightarrow> real" where
  "loss_reduction streak sz =
     (if streak \<ge> 3 then sz * (1 / 2) ^ nat (streak - 2) else sz)"

definition get_position_size ::
    "risk_manager \<Rightarrow> real \<Rightarrow> string \<Rightarrow> string \<Rightarrow> real option \<Rightarrow> real" where
  "get_position_size rm entry dir strat bankroll =
     round_nd 2 (loss_reduction (consecutive_losses rm)
        (apply_limits (cfg rm) (mode_size (cfg rm) entry dir strat bankroll)))"

subsection \<open>Kill switch\<close>

text \<open>
  \<open>_calculate_daily_pnl\<close>. \<open>parse\<close> stands for
  \<open>datetime.fromisoformat(...).date()\<close>, which raises ValueError on a string that is not
  a timestamp (\<open>None\<close>); \<open>today\<close> is the current UTC date. Adding the \<open>pnl\<close> of a
  resolved trade whose \<open>pnl\<close> is None raises TypeError.
\<close>

fun daily_pnl_loop ::
    "(string \<Rightarrow> string option) \<Rightarrow> string \<Rightarrow> trade list \<Rightarrow> real \<Rightarrow> py_error + real" where
  "daily_pnl_loop parse today [] acc = Inr acc"
| "daily_pnl_loop parse today (t # ts) acc =
     (if \<not> resolved t then daily_pnl_loop parse today ts acc
      else
        (case parse (timestamp t) of
           None \<Rightarrow> Inl ValueError
         | Some trade_date \<Rightarrow>
             (if trade_date = today
              then (case pnl t of
                      None \<Rightarrow> Inl TypeError
                    | Some p \<Rightarrow> daily_pnl_loop parse today ts (acc + p))
              else daily_pnl_loop parse today ts acc)))"

definition calculate_daily_pnl ::
    "(string \<Rightarrow> string option) \<Rightarrow> string \<Rightarrow> ledger option \<Rightarrow> py_error + real" where
  "calculate_daily_pnl parse today state =
     (case state of
        None \<Rightarrow> Inr 0
      | Some l \<Rightarrow> daily_pnl_loop parse today (trades l) 0)"

text \<open>
  \<open>check_kill_switch\<close>: True to go on, False to pause; a hard limit raises
  KillSwitchTriggered.
\<close>

definition check_kill_switch ::
    "(string \<Rightarrow> string option) \<Rightarrow> string \<Rightarrow> risk_manager \<Rightarrow> ledger option \<Rightarrow> py_error + bool" where
  "check_kill_switch parse today rm state =
     (case state of
        None \<Rightarrow> Inr True
      | Some l \<Rightarrow>
          (if pnl_total (totals l) < - max_total_loss (cfg rm)
           then Inl (KillSwitchTriggered (TotalLossLimit (pnl_total (totals l))))
           else
             (case calculate_daily_pnl parse today state of
                Inl e \<Rightarrow> Inl e
              | Inr daily_pnl \<Rightarrow>
                  (if daily_pnl < - max_daily_loss (cfg rm)
                   then Inl (KillSwitchTriggered (DailyLossLimit daily_pnl))
                   else if consecutive_losses rm \<ge> max_consecutive_losses (cfg rm)
                     then Inr False
                   else if int (length (get_unresolved_trades l)) \<ge> max_open_positions (cfg rm)
                     then Inr False
                   else Inr True))))"

definition record_result :: "string \<Rightarrow> risk_manager \<Rightarrow> risk_manager" where
  "record_result res rm =
     (if res = ''loss'' then rm\<lparr> consecutive_losses := consecutive_losses rm + 1 \<rparr>
      else rm\<lparr> consecutive_losses := 0 \<rparr>)"

section \<open>Order executor (core/executor.py)\<close>

datatype exec_error =
    OrderbookFetchFailed string
  | SpreadTooWide real real
  | AskExceedsMax real real
  | AllAttemptsFailed int "string option"
  | OrderStatus string
  | VerificationTimeout real

text \<open>
  The dataclass \<open>ExecutionResult\<close>, without the raw \<open>metadata\<close>; its fields
  \<open>order_id\<close> and \<open>tx_hash\<close> are \<open>res_order_id\<close> and \<open>res_tx_hash\<close>. The
  error texts are the constructors of \<open>exec_error\<close>, with the values they print.
\<close>

record execution_result =
  success :: bool
  res_order_id :: "string option"
  res_tx_hash :: "string option"
  filled_size :: real
  filled_price :: real
  error :: "exec_error option"

definition failure :: "exec_error \<Rightarrow> execution_result" where
  "failure e =
     \<lparr> success = False, res_order_id = None, res_tx_hash = None,
       filled_size = 0, filled_price = 0, error = Some e \<rparr>"

record orderbook =
  bid :: real
  ask :: real
  spread :: real

text \<open>The response of \<open>create_order\<close>: the values under \<open>orderID\<close> and \<open>id\<close>.\<close>

record order_response =
  resp_orderID :: "string option"
  resp_id :: "string option"

text \<open>
  The trading venue behind the client. \<open>get_orderbook\<close> and \<open>create_order\<close> raise
  (\<open>Inl\<close> with the message) or answer; \<open>create_order\<close> also takes the number of the
  attempt, so that the venue may answer each call differently. \<open>verify_fill\<close> is what the
  polling of \<open>_verify_fill\<close> ends with for an order id: the polling depends on the wall
  clock and is not unfolded here.
\<close>

record venue =
  get_orderbook :: "string \<Rightarrow> string + orderbook"
  create_order :: "nat \<Rightarrow> string \<Rightarrow> real \<Rightarrow> real \<Rightarrow> string \<Rightarrow> string + order_response"
  verify_fill :: "nat \<Rightarrow> string \<Rightarrow> execution_result"

text \<open>
  The parameters of the OrderExecutor; \<open>max_spread\<close> and \<open>max_entry_price\<close> are
  \<open>ex_max_spread\<close> and \<open>ex_max_entry_price\<close>, and \<open>default_executor\<close> holds the
  defaults of the constructor.
\<close>

record executor =
  max_retries :: nat
  retry_delay :: int
  verify_timeout :: real
  ex_max_spread :: real
  ex_max_entry_price :: real

definition default_executor :: executor where
  "default_executor =
     \<lparr> max_retries = 3, retry_delay = 2, verify_timeout = 30,
       ex_max_spread = 0.10, ex_max_entry_price = 0.60 \<rparr>"

text \<open>\<open>order.get('orderID') or order.get('id')\<close>, and \<open>not order_id\<close> for None and ''.\<close>

definition py_or :: "string option \<Rightarrow> string option \<Rightarrow> string option" where
  "py_or a b = (case a of None \<Rightarrow> b | Some x \<Rightarrow> if x = [] then b else a)"

definition falsy :: "string option \<Rightarrow> bool" where
  "falsy a = (case a of None \<Rightarrow> True | Some x \<Rightarrow> x = [])"

text \<open>The backoff at the end of the loop body: a sleep, except after the last attempt.\<close>

definition backoff :: "executor \<Rightarrow> nat \<Rightarrow> int list" where
  "backoff ex attempt =
     (if int attempt < int (max_retries ex) - 1 then [retry_delay ex * 2 ^ attempt] else [])"

text \<open>
  The loop of \<open>_execute_with_retry\<close> over the attempts still to run, with \<open>last_error\<close>
  and the sleeps made so far. \<open>continue\<close> goes to the next attempt at once.
\<close>

fun retry_loop ::
    "executor \<Rightarrow> venue \<Rightarrow> string \<Rightarrow> real \<Rightarrow> real \<Rightarrow> string \<Rightarrow>
     nat list \<Rightarrow> string option \<Rightarrow> int list \<Rightarrow> execution_result \<times> int list" where
  "retry_loop ex v tok price sz side [] last_error sleeps =
     (failure (AllAttemptsFailed (int (max_retries ex)) last_error), sleeps)"
| "retry_loop ex v tok price sz side (attempt # rest) last_error sleeps =
     (case create_order v attempt tok price sz side of
        Inl e \<Rightarrow>
          retry_loop ex v tok price sz side rest (Some e) (sleeps @ backoff ex attempt)
      | Inr order \<Rightarrow>
          (let oid = py_or (resp_orderID order) (resp_id order)
           in if falsy oid
              then retry_loop ex v tok price sz side rest last_error sleeps
              else
                (let r = verify_fill v attempt (the oid)
                 in if success r then (r, sleeps)
                    else retry_loop ex v tok price sz side rest last_error
                           (sleeps @ backoff ex attempt))))"

definition execute_with_retry ::
    "executor \<Rightarrow> venue \<Rightarrow> string \<Rightarrow> real \<Rightarrow> real \<Rightarrow> string \<Rightarrow> execution_result \<times> int list" where
  "execute_with_retry ex v tok price sz side =
     retry_loop ex v tok price sz side [0..<max_retries ex] None []"

text \<open>\<open>max_price or self.max_entry_price\<close>: None and 0 give the configured maximum.\<close>

definition price_or :: "real option \<Rightarrow> real \<Rightarrow> real" where
  "price_or p d = (case p of None \<Rightarrow> d | Some x \<Rightarrow> if x = 0 then d else x)"

text \<open>
  \<open>execute_buy\<close>. The division \<open>amount_usd / entry_price\<close> raises ZeroDivisionError
  when the ask is zero.
\<close>

definition execute_buy ::
    "executor \<Rightarrow> venue \<Rightarrow> string \<Rightarrow> real \<Rightarrow> real option \<Rightarrow>
     py_error + execution_result \<times> int list" where
  "execute_buy ex v tok amount max_price_opt =
     (let max_price = price_or max_price_opt (ex_max_entry_price ex)
      in case get_orderbook v tok of
           Inl e \<Rightarrow> Inr (failure (OrderbookFetchFailed e), [])
         | Inr book \<Rightarrow>
             (if spread book > ex_max_spread ex
              then Inr (failure (SpreadTooWide (spread book) (ex_max_spread ex)), [])
              else if ask book > max_price
              then Inr (failure (AskExceedsMax (ask book) max_price), [])
              else
                (let entry = ask book
                 in if entry = 0 then Inl ZeroDivisionError
                    else
                      (let sz = amount / entry
                       in Inr (execute_with_retry ex v tok entry sz ''buy'')))))"

section \<open>Ledger invariants and runs of the store\<close>

text \<open>
  The three invariants of the ledger: the trade counter is the number of trades, wins
  plus losses is the number of resolved trades, and the running P&L is the sum of the
  \<open>pnl\<close> stored in the resolved trades.
\<close>

definition resolved_count :: "ledger \<Rightarrow> int" where
  "resolved_count l = int (length (filter resolved (trades l)))"

definition pnl_or_zero :: "trade \<Rightarrow> real" where
  "pnl_or_zero t = (case pnl t of None \<Rightarrow> 0 | Some p \<Rightarrow> p)"

definition resolved_pnl_sum :: "ledger \<Rightarrow> real" where
  "resolved_pnl_sum l = sum_list (map pnl_or_zero (filter resolved (trades l)))"

definition count_inv :: "ledger \<Rightarrow> bool" where
  "count_inv l = (total_trades (totals l) = int (length (trades l)))"

definition outcome_inv :: "ledger \<Rightarrow> bool" where
  "outcome_inv l = (wins (totals l) + losses (totals l) = resolved_count l)"

definition pnl_inv :: "ledger \<Rightarrow> bool" where
  "pnl_inv l = (pnl_total (totals l) = resolved_pnl_sum l)"

definition ledger_inv :: "ledger \<Rightarrow> bool" where
  "ledger_inv l = (count_inv l \<and> outcome_inv l \<and> pnl_inv l)"

text \<open>A call of the store, with the clock reading it sees, and a sequence of calls.\<close>

datatype store_op = AddTrade string trade | ResolveTrade string string string real

fun run_op :: "store_op \<Rightarrow> store \<Rightarrow> store" where
  "run_op (AddTrade now t) s = add_trade now t s"
| "run_op (ResolveTrade now tid res p) s = resolve_trade now tid res p s"

fun run_ops :: "store_op list \<Rightarrow> store \<Rightarrow> store" where
  "run_ops [] s = s"
| "run_ops (x # xs) s = run_ops xs (run_op x s)"

text \<open>
  The discipline of a caller that resolves only what \<open>get_unresolved_trades\<close> lists:
  a new trade is unresolved, and the trade a resolution reaches (the first with the id)
  is unresolved.
\<close>

definition target_unresolved :: "string \<Rightarrow> trade list \<Rightarrow> bool" where
  "target_unresolved tid ts =
     (case find (\<lambda>t. trade_id t = tid) ts of None \<Rightarrow> True | Some t \<Rightarrow> \<not> resolved t)"

fun op_guarded :: "store_op \<Rightarrow> store \<Rightarrow> bool" where
  "op_guarded (AddTrade now t) s = (\<not> resolved t)"
| "op_guarded (ResolveTrade now tid res p) s = target_unresolved tid (trades (st s))"

fun ops_guarded :: "store_op list \<Rightarrow> store \<Rightarrow> bool" where
  "ops_guarded [] s = True"
| "ops_guarded (x # xs) s = (op_guarded x s \<and> ops_guarded xs (run_op x s))"

section \<open>Example states\<close>

definition sample_trade :: trade where
  "sample_trade =
     \<lparr> trade_id = ''T1'', timestamp = ''2024-01-01T23:00:00+00:00'', market_id = ''M1'',
       token_id = ''K1'', direction = ''long'', outcome = ''YES'', entry_price = 0.4,
       size_shares = 12.5, amount_usd = 5, order_id = Some ''O1'', tx_hash = None,
       strategy = ''default'', resolved = False, result = None, pnl = None,
       resolution_time = None \<rparr>"

definition fresh_store :: store where
  "fresh_store = \<lparr> st = default_state ''2024-01-01T00:00:00+00:00'', disk = NoFile \<rparr>"

definition one_trade_store :: store where
  "one_trade_store = add_trade ''2024-01-01T23:00:00+00:00'' sample_trade fresh_store"

definition won_store :: store where
  "won_store = resolve_trade ''2024-01-02T01:00:00+00:00'' ''T1'' ''win'' 1 one_trade_store"

definition small_pnl :: real where
  "small_pnl = 0.00004"

definition tiny_store :: store where
  "tiny_store = resolve_trade ''2024-01-02T01:00:00+00:00'' ''T1'' ''win'' small_pnl one_trade_store"

definition lost_store :: store where
  "lost_store =
     resolve_trade ''2024-01-02T01:00:00+00:00'' ''T1'' ''loss'' (- 150) one_trade_store"

definition crashed_store :: store where
  "crashed_store =
     resolve_trade ''2024-01-02T01:00:00+00:00'' ''T1'' ''loss'' (- 600) one_trade_store"

text \<open>A configuration with a negative base bet and a minimum bet below it.\<close>

definition negative_config :: config where
  "negative_config = default_config\<lparr> base_bet := - 5, min_bet := - 100 \<rparr>"

definition kelly_config :: config where
  "kelly_config = default_config\<lparr> sizing_mode := ''kelly'', default_win_rate := 0.6 \<rparr>"

definition matched :: execution_result where
  "matched =
     \<lparr> success = True, res_order_id = Some ''O1'', res_tx_hash = Some ''0xabc'',
       filled_size = 12.5, filled_price = 0.4, error = None \<rparr>"

definition good_book :: orderbook where
  "good_book = \<lparr> bid = 0.38, ask = 0.4, spread = 0.02 \<rparr>"

text \<open>A venue whose first two submissions come back without an order id.\<close>

definition silent_venue :: venue where
  "silent_venue =
     \<lparr> get_orderbook = (\<lambda>tok. Inr good_book),
       create_order = (\<lambda>attempt tok price sz side.
          if attempt < 2 then Inr \<lparr> resp_orderID = None, resp_id = None \<rparr>
          else Inr \<lparr> resp_orderID = Some ''O1'', resp_id = None \<rparr>),
       verify_fill = (\<lambda>attempt oid. matched) \<rparr>"

text \<open>A venue whose first two submissions raise.\<close>

definition raising_venue :: venue where
  "raising_venue =
     \<lparr> get_orderbook = (\<lambda>tok. Inr good_book),
       create_order = (\<lambda>attempt tok price sz side.
          if attempt < 2 then Inl ''timeout''
          else Inr \<lparr> resp_orderID = Some ''O1'', resp_id = None \<rparr>),
       verify_fill = (\<lambda>attempt oid. matched) \<rparr>"

text \<open>A venue whose best ask is 0.\<close>

definition zero_ask_venue :: venue where
  "zero_ask_venue =
     \<lparr> get_orderbook = (\<lambda>tok. Inr \<lparr> bid = 0, ask = 0, spread = 0 \<rparr>),
       create_order = (\<lambda>attempt tok price sz side.
          Inr \<lparr> resp_orderID = Some ''O1'', resp_id = None \<rparr>),
       verify_fill = (\<lambda>attempt oid. matched) \<rparr>"

section \<open>The daily P&L and the kill switch, as specified\<close>

text \<open>
  A date parser for the examples: the date of a timestamp written by
  \<open>datetime.isoformat()\<close> is its first ten characters.
\<close>

definition iso_date :: "string \<Rightarrow> string option" where
  "iso_date s = (if length s < 10 then None else Some (take 10 s))"

text \<open>A resolved trade created today, and a trade resolved today.\<close>

definition created_on :: "(string \<Rightarrow> string option) \<Rightarrow> string \<Rightarrow> trade \<Rightarrow> bool" where
  "created_on parse today t = (resolved t \<and> parse (timestamp t) = Some today)"

definition resolved_on :: "(string \<Rightarrow> string option) \<Rightarrow> string \<Rightarrow> trade \<Rightarrow> bool" where
  "resolved_on parse today t =
     (resolved t \<and> (case resolution_time t of None \<Rightarrow> False | Some r \<Rightarrow> parse r = Some today))"

text \<open>
  The daily P&L in the words of the specification: the sum of \<open>pnl\<close> over the resolved
  trades whose resolution date is today.
\<close>

definition daily_pnl_by_resolution ::
    "(string \<Rightarrow> string option) \<Rightarrow> string \<Rightarrow> ledger \<Rightarrow> real" where
  "daily_pnl_by_resolution parse today l =
     sum_list (map pnl_or_zero (filter (resolved_on parse today) (trades l)))"

text \<open>A trade the loop of \<open>_calculate_daily_pnl\<close> reads without raising.\<close>

definition readable :: "(string \<Rightarrow> string option) \<Rightarrow> trade \<Rightarrow> bool" where
  "readable parse t = (resolved t \<longrightarrow> parse (timestamp t) \<noteq> None \<and> pnl t \<noteq> None)"

text \<open>
  The three-state outcome of the specification and its decision order, over the total
  P&L, the daily P&L, the loss streak and the number of open positions.
\<close>

datatype outcome = Continue | Pause | HardStop kill_reason

definition kill_switch_spec :: "config \<Rightarrow> real \<Rightarrow> real \<Rightarrow> int \<Rightarrow> int \<Rightarrow> outcome" where
  "kill_switch_spec c total_pnl daily streak open_count =
     (if total_pnl < - max_total_loss c then HardStop (TotalLossLimit total_pnl)
      else if daily < - max_daily_loss c then HardStop (DailyLossLimit daily)
      else if streak \<ge> max_consecutive_losses c then Pause
      else if open_count \<ge> max_open_positions c then Pause
      else Continue)"

text \<open>
  How \<open>check_kill_switch\<close> signals an outcome: it returns True or False, or raises
  KillSwitchTriggered; any other exception is no outcome.
\<close>

fun signalled :: "py_error + bool \<Rightarrow> outcome option" where
  "signalled (Inr True) = Some Continue"
| "signalled (Inr False) = Some Pause"
| "signalled (Inl (KillSwitchTriggered r)) = Some (HardStop r)"
| "signalled (Inl _) = None"

text \<open>The multiplier of the base bet in fixed mode.\<close>

definition tier :: "real \<Rightarrow> real" where
  "tier p = (if p < 0.40 then 1.5 else if p < 0.50 then 1 else if p < 0.55 then 0.75 else 0.5)"

section \<open>Facts about the store\<close>

lemma st_save: "st (save now s) = (st s)\<lparr> last_saved := Some now \<rparr>"
  by (simp add: save_def Let_def)

lemma st_add_trade:
  "st (add_trade now t s) =
     (st s)\<lparr> trades := trades (st s) @ [t],
             totals := (totals (st s))\<lparr> total_trades := total_trades (totals (st s)) + 1 \<rparr>,
             tracking := (tracking (st s))\<lparr> last_trade_time := Some (timestamp t),
                                             last_market_id := Some (market_id t) \<rparr>,
             last_saved := Some now \<rparr>"
  by (simp add: add_trade_def st_save Let_def)

lemma resolve_first_None:
  "(resolve_first now tid res p ts = None) = (tid \<notin> trade_id ` set ts)"
  by (induction ts) auto

lemma resolve_first_length:
  "resolve_first now tid res p ts = Some ts' \<Longrightarrow> length ts' = length ts"
  by (induction ts arbitrary: ts') (auto split: if_splits)

lemma resolve_first_resolved_count:
  "resolve_first now tid res p ts = Some ts' \<Longrightarrow> target_unresolved tid ts \<Longrightarrow>
   length (filter resolved ts') = Suc (length (filter resolved ts))"
  by (induction ts arbitrary: ts') (auto simp: target_unresolved_def split: if_splits)

lemma totals_resolve_trade:
  "resolve_first now tid res p (trades (st s)) = Some ts \<Longrightarrow>
   totals (st (resolve_trade now tid res p s)) =
     (if res = ''win''
      then (totals (st s))\<lparr> pnl_total := pnl_total (totals (st s)) + p,
                            wins := wins (totals (st s)) + 1 \<rparr>
      else (totals (st s))\<lparr> pnl_total := pnl_total (totals (st s)) + p,
                            losses := losses (totals (st s)) + 1 \<rparr>)"
  by (simp add: resolve_trade_def st_save Let_def)

lemma trades_resolve_trade:
  "resolve_first now tid res p (trades (st s)) = Some ts \<Longrightarrow>
   trades (st (resolve_trade now tid res p s)) = ts"
  by (simp add: resolve_trade_def st_save Let_def)

lemma resolve_trade_absent:
  "resolve_first now tid res p (trades (st s)) = None \<Longrightarrow> resolve_trade now tid res p s = s"
  by (simp add: resolve_trade_def)

subsection \<open>The example states, evaluated\<close>

lemma py_round_of_int: "py_round (of_int n) = n"
  by (simp add: py_round_def Let_def)

lemma round_nd_1: "round_nd 4 1 = 1"
  using py_round_of_int [of 10000] by (simp add: round_nd_def)

lemma py_round_small: "py_round (2 / 5) = 0"
  by (simp add: py_round_def Let_def)

lemma round_nd_small: "round_nd 4 small_pnl = 0"
  using py_round_small by (simp add: round_nd_def small_pnl_def)

lemma small_pnl_nonzero: "small_pnl \<noteq> 0"
  by (simp add: small_pnl_def)

lemma trades_one: "trades (st one_trade_store) = [sample_trade]"
  by (simp add: one_trade_store_def add_trade_def fresh_store_def default_state_def
      st_save Let_def)

lemma totals_one:
  "totals (st one_trade_store) = \<lparr> pnl_total = 0, wins = 0, losses = 0, total_trades = 1 \<rparr>"
  by (simp add: one_trade_store_def add_trade_def fresh_store_def default_state_def
      st_save Let_def)

lemma won_first:
  "resolve_first ''2024-01-02T01:00:00+00:00'' ''T1'' ''win'' 1 (trades (st one_trade_store))
     = Some [sample_trade\<lparr> resolved := True, result := Some ''win'', pnl := Some 1,
                           resolution_time := Some ''2024-01-02T01:00:00+00:00'' \<rparr>]"
  by (simp add: trades_one sample_trade_def round_nd_1)

lemma trades_won:
  "trades (st won_store)
     = [sample_trade\<lparr> resolved := True, result := Some ''win'', pnl := Some 1,
                      resolution_time := Some ''2024-01-02T01:00:00+00:00'' \<rparr>]"
  unfolding won_store_def using won_first by (rule trades_resolve_trade)

lemma totals_won:
  "totals (st won_store) = \<lparr> pnl_total = 1, wins = 1, losses = 0, total_trades = 1 \<rparr>"
  unfolding won_store_def using totals_resolve_trade [OF won_first] by (simp add: totals_one)

lemma won_again:
  "\<exists>ts. resolve_first ''2024-01-02T02:00:00+00:00'' ''T1'' ''win'' 1 (trades (st won_store))
          = Some ts"
  by (simp add: trades_won sample_trade_def)

lemma tiny_first:
  "resolve_first ''2024-01-02T01:00:00+00:00'' ''T1'' ''win'' small_pnl
       (trades (st one_trade_store))
     = Some [sample_trade\<lparr> resolved := True, result := Some ''win'', pnl := Some 0,
                           resolution_time := Some ''2024-01-02T01:00:00+00:00'' \<rparr>]"
  by (simp add: trades_one sample_trade_def round_nd_small)

subsection \<open>Resolving a trade and the totals\<close>

text \<open>
  C1, as the code has it. \<open>resolve_trade\<close> does not look at the \<open>resolved\<close> flag: every
  call whose id is in the ledger, resolved already or not, adds the \<open>pnl\<close> it is given
  to \<open>totals.pnl\<close> and adds one to \<open>wins\<close> (result \<open>win\<close>) or to \<open>losses\<close> (any other
  result); a call whose id is not in the ledger changes nothing.
\<close>

theorem resolve_trade_counts_each_call:
  "(tid \<in> trade_id ` set (trades (st s)) \<longrightarrow>
      pnl_total (totals (st (resolve_trade now tid res p s))) = pnl_total (totals (st s)) + p
    \<and> wins (totals (st (resolve_trade now tid res p s)))
        = wins (totals (st s)) + (if res = ''win'' then 1 else 0)
    \<and> losses (totals (st (resolve_trade now tid res p s)))
        = losses (totals (st s)) + (if res = ''win'' then 0 else 1))
   \<and> (tid \<notin> trade_id ` set (trades (st s)) \<longrightarrow> resolve_trade now tid res p s = s)"
proof (cases "resolve_first now tid res p (trades (st s))")
  case None
  then show ?thesis
    using resolve_first_None [of now tid res p "trades (st s)"]
    by (simp add: resolve_trade_absent)
next
  case (Some ts)
  then have "tid \<in> trade_id ` set (trades (st s))"
    using resolve_first_None [of now tid res p "trades (st s)"] by simp
  then show ?thesis
    using Some by (simp add: totals_resolve_trade)
qed

theorem resolve_trade_counts_each_call_witness:
  "''T1'' \<in> trade_id ` set (trades (st won_store))
   \<and> pnl_total (totals (st (resolve_trade ''2024-01-02T02:00:00+00:00'' ''T1'' ''loss'' (- 3)
         won_store))) = - 2
   \<and> ''T2'' \<notin> trade_id ` set (trades (st won_store))
   \<and> resolve_trade ''2024-01-02T02:00:00+00:00'' ''T2'' ''loss'' (- 3) won_store = won_store"
  using
    resolve_trade_counts_each_call
      [of "''T1''" won_store "''2024-01-02T02:00:00+00:00''" "''loss''" "- 3"]
    resolve_trade_counts_each_call
      [of "''T2''" won_store "''2024-01-02T02:00:00+00:00''" "''loss''" "- 3"]
  by (simp add: trades_won totals_won sample_trade_def)

text \<open>
  C1, as stated, fails: in \<open>won_store\<close> the trade \<open>T1\<close> is resolved with a win of 1, and
  resolving \<open>T1\<close> again moves \<open>totals.pnl\<close> from 1 to 2 and \<open>wins\<close> from 1 to 2.
\<close>

theorem resolve_twice_counterexample:
  "resolved (hd (trades (st won_store))) \<and> trade_id (hd (trades (st won_store))) = ''T1''
   \<and> pnl_total (totals (st won_store)) = 1
   \<and> wins (totals (st won_store)) = 1
   \<and> pnl_total (totals (st (resolve_trade ''2024-01-02T02:00:00+00:00'' ''T1'' ''win'' 1
         won_store))) = 2
   \<and> wins (totals (st (resolve_trade ''2024-01-02T02:00:00+00:00'' ''T1'' ''win'' 1
         won_store))) = 2"
proof -
  from won_again obtain ts where
    "resolve_first ''2024-01-02T02:00:00+00:00'' ''T1'' ''win'' 1 (trades (st won_store))
       = Some ts" ..
  from totals_resolve_trade [OF this] show ?thesis
    by (simp add: trades_won totals_won sample_trade_def)
qed

subsection \<open>The ledger invariants\<close>

lemma count_inv_add: "count_inv (st s) \<Longrightarrow> count_inv (st (add_trade now t s))"
  by (simp add: count_inv_def st_add_trade)

lemma count_inv_resolve:
  "count_inv (st s) \<Longrightarrow> count_inv (st (resolve_trade now tid res p s))"
proof (cases "resolve_first now tid res p (trades (st s))")
  case None
  assume "count_inv (st s)"
  with None show ?thesis by (simp add: resolve_trade_absent)
next
  case (Some ts)
  assume "count_inv (st s)"
  with Some show ?thesis
    by (simp add: count_inv_def totals_resolve_trade trades_resolve_trade
        resolve_first_length)
qed

lemma count_inv_run: "count_inv (st s) \<Longrightarrow> count_inv (st (run_ops ops s))"
proof (induction ops arbitrary: s)
  case Nil
  then show ?case by simp
next
  case (Cons x xs)
  have "count_inv (st (run_op x s))"
    using Cons.prems by (cases x) (simp_all add: count_inv_add count_inv_resolve)
  then show ?case using Cons.IH by simp
qed

lemma ledger_inv_default: "ledger_inv (default_state now)"
  by (simp add: ledger_inv_def count_inv_def outcome_inv_def pnl_inv_def
      resolved_count_def resolved_pnl_sum_def default_state_def)

lemma ledger_inv_fresh: "ledger_inv (st fresh_store)"
  by (simp add: fresh_store_def ledger_inv_default)

lemma outcome_inv_add:
  "outcome_inv (st s) \<Longrightarrow> \<not> resolved t \<Longrightarrow> outcome_inv (st (add_trade now t s))"
  by (simp add: outcome_inv_def resolved_count_def st_add_trade)

lemma outcome_inv_resolve:
  assumes "outcome_inv (st s)" "target_unresolved tid (trades (st s))"
  shows "outcome_inv (st (resolve_trade now tid res p s))"
proof (cases "resolve_first now tid res p (trades (st s))")
  case None
  with assms(1) show ?thesis by (simp add: resolve_trade_absent)
next
  case (Some ts)
  note cnt = resolve_first_resolved_count [OF Some assms(2)]
  from assms(1) cnt show ?thesis
    by (simp add: outcome_inv_def resolved_count_def
        totals_resolve_trade [OF Some] trades_resolve_trade [OF Some])
qed

lemma outcome_inv_run:
  "outcome_inv (st s) \<Longrightarrow> ops_guarded ops s \<Longrightarrow> outcome_inv (st (run_ops ops s))"
proof (induction ops arbitrary: s)
  case Nil
  then show ?case by simp
next
  case (Cons x xs)
  have "outcome_inv (st (run_op x s))"
    using Cons.prems by (cases x) (simp_all add: outcome_inv_add outcome_inv_resolve)
  then show ?case using Cons.IH Cons.prems by simp
qed

lemma pnl_inv_add:
  "pnl_inv (st s) \<Longrightarrow> \<not> resolved t \<Longrightarrow> pnl_inv (st (add_trade now t s))"
  by (simp add: pnl_inv_def resolved_pnl_sum_def st_add_trade)

lemma pnl_inv_resolve_absent:
  "pnl_inv (st s) \<Longrightarrow> tid \<notin> trade_id ` set (trades (st s)) \<Longrightarrow>
   pnl_inv (st (resolve_trade now tid res p s))"
  using resolve_first_None [of now tid res p "trades (st s)"]
  by (simp add: resolve_trade_absent)

text \<open>
  C2, as the code has it. The three invariants hold in the default state. The trade
  counter stays equal to the number of trades under every sequence of \<open>add_trade\<close> and
  \<open>resolve_trade\<close>. Wins plus losses stays equal to the number of resolved trades
  under every sequence in which each added trade is unresolved and each resolution
  reaches an unresolved trade or none, whatever the \<open>pnl\<close>. The running P&L stays equal
  to the sum of the stored \<open>pnl\<close> when an unresolved trade is added and when a
  resolution finds no trade; nothing is stated of it for a resolution that finds one,
  where the trade stores the rounded \<open>pnl\<close>, the total takes the unrounded one, and
  the code adds floats in the order of the calls.
\<close>

theorem ledger_invariants_guarded:
  "ledger_inv (default_state now)
   \<and> (count_inv (st s) \<longrightarrow> count_inv (st (run_ops ops s)))
   \<and> (outcome_inv (st s) \<and> ops_guarded ops s \<longrightarrow> outcome_inv (st (run_ops ops s)))
   \<and> (pnl_inv (st s) \<and> \<not> resolved t \<longrightarrow> pnl_inv (st (add_trade now t s)))
   \<and> (pnl_inv (st s) \<and> tid \<notin> trade_id ` set (trades (st s)) \<longrightarrow>
        pnl_inv (st (resolve_trade now tid res p s)))"
  using ledger_inv_default count_inv_run outcome_inv_run pnl_inv_add pnl_inv_resolve_absent
  by blast

theorem ledger_invariants_guarded_witness:
  "count_inv (st fresh_store) \<and> outcome_inv (st fresh_store) \<and> pnl_inv (st fresh_store)
   \<and> ops_guarded [AddTrade ''2024-01-01T23:00:00+00:00'' sample_trade,
          ResolveTrade ''2024-01-02T01:00:00+00:00'' ''T1'' ''win'' small_pnl] fresh_store
   \<and> count_inv (st tiny_store) \<and> outcome_inv (st tiny_store)
   \<and> \<not> resolved sample_trade
   \<and> pnl_inv (st (add_trade ''2024-01-01T23:00:00+00:00'' sample_trade fresh_store))
   \<and> ''T2'' \<notin> trade_id ` set (trades (st fresh_store))
   \<and> pnl_inv (st (resolve_trade ''2024-01-01T23:00:00+00:00'' ''T2'' ''win'' small_pnl
         fresh_store))"
proof -
  have g: "ops_guarded [AddTrade ''2024-01-01T23:00:00+00:00'' sample_trade,
          ResolveTrade ''2024-01-02T01:00:00+00:00'' ''T1'' ''win'' small_pnl] fresh_store"
    using trades_one
    by (simp add: one_trade_store_def target_unresolved_def sample_trade_def)
  have i: "ledger_inv (st fresh_store)" by (rule ledger_inv_fresh)
  have u: "\<not> resolved sample_trade" by (simp add: sample_trade_def)
  have e: "''T2'' \<notin> trade_id ` set (trades (st fresh_store))"
    by (simp add: fresh_store_def default_state_def)
  from ledger_invariants_guarded
      [where now = "''2024-01-01T23:00:00+00:00''" and s = fresh_store
         and ops = "[AddTrade ''2024-01-01T23:00:00+00:00'' sample_trade,
                     ResolveTrade ''2024-01-02T01:00:00+00:00'' ''T1'' ''win'' small_pnl]"
         and t = sample_trade and tid = "''T2''" and res = "''win''" and p = small_pnl]
    g i u e
  show ?thesis
    by (simp add: ledger_inv_def tiny_store_def one_trade_store_def)
qed

text \<open>
  C2, as stated, fails on two runs from the default state. Adding \<open>T1\<close> and resolving it
  with a \<open>pnl\<close> of 0.00004 stores the rounded 0.0 in the trade and adds the unrounded
  0.00004 to \<open>totals.pnl\<close>. Adding \<open>T1\<close> and resolving it twice gives two wins for one
  resolved trade.
\<close>

theorem ledger_invariants_counterexample:
  "ledger_inv (st fresh_store)
   \<and> \<not> pnl_inv (st (run_ops [AddTrade ''2024-01-01T23:00:00+00:00'' sample_trade,
          ResolveTrade ''2024-01-02T01:00:00+00:00'' ''T1'' ''win'' small_pnl] fresh_store))
   \<and> \<not> outcome_inv (st (run_ops [AddTrade ''2024-01-01T23:00:00+00:00'' sample_trade,
          ResolveTrade ''2024-01-02T01:00:00+00:00'' ''T1'' ''win'' 1,
          ResolveTrade ''2024-01-02T02:00:00+00:00'' ''T1'' ''win'' 1] fresh_store))"
proof -
  have a: "\<not> pnl_inv (st tiny_store)"
    unfolding tiny_store_def
    by (simp add: pnl_inv_def resolved_pnl_sum_def totals_resolve_trade [OF tiny_first]
        trades_resolve_trade [OF tiny_first] totals_one sample_trade_def pnl_or_zero_def
        small_pnl_nonzero)
  from won_again obtain ts where
    r: "resolve_first ''2024-01-02T02:00:00+00:00'' ''T1'' ''win'' 1 (trades (st won_store))
          = Some ts" ..
  have l: "length ts = 1"
    using resolve_first_length [OF r] by (simp add: trades_won)
  have b: "\<not> outcome_inv (st (resolve_trade ''2024-01-02T02:00:00+00:00'' ''T1'' ''win'' 1
              won_store))"
  proof
    assume "outcome_inv (st (resolve_trade ''2024-01-02T02:00:00+00:00'' ''T1'' ''win'' 1
              won_store))"
    then have "2 = int (length (filter resolved ts))"
      by (simp add: outcome_inv_def resolved_count_def totals_resolve_trade [OF r]
          trades_resolve_trade [OF r] totals_won)
    moreover have "length (filter resolved ts) \<le> length ts" by (rule length_filter_le)
    ultimately show False using l by simp
  qed
  from a b show ?thesis
    by (simp add: ledger_inv_fresh tiny_store_def won_store_def one_trade_store_def)
qed

section \<open>Position sizing\<close>

lemma py_round_bounds: "\<lfloor>x\<rfloor> \<le> py_round x \<and> py_round x \<le> \<lfloor>x\<rfloor> + 1"
  by (simp add: py_round_def Let_def)

lemma py_round_mono: "x \<le> y \<Longrightarrow> py_round x \<le> py_round y"
proof (cases "\<lfloor>x\<rfloor> = \<lfloor>y\<rfloor>")
  case True
  assume "x \<le> y"
  with True show ?thesis by (auto simp: py_round_def Let_def)
next
  case False
  assume le: "x \<le> y"
  then have "\<lfloor>x\<rfloor> \<le> \<lfloor>y\<rfloor>" by (rule floor_mono)
  with False have "\<lfloor>x\<rfloor> + 1 \<le> \<lfloor>y\<rfloor>" by simp
  with py_round_bounds [of x] py_round_bounds [of y] show ?thesis by linarith
qed

lemma round_nd_mono: "x \<le> y \<Longrightarrow> round_nd n x \<le> round_nd n y"
proof -
  assume "x \<le> y"
  then have "x * 10 ^ n \<le> y * 10 ^ n" by simp
  then have "py_round (x * 10 ^ n) \<le> py_round (y * 10 ^ n)" by (rule py_round_mono)
  then show ?thesis by (simp add: round_nd_def divide_right_mono)
qed

lemma loss_reduction_mono: "x \<le> y \<Longrightarrow> loss_reduction k x \<le> loss_reduction k y"
  by (simp add: loss_reduction_def mult_right_mono)

lemma apply_limits_mono: "x \<le> y \<Longrightarrow> apply_limits c x \<le> apply_limits c y"
  by (auto simp: apply_limits_def max_def min_def)

lemma fixed_size_tier: "fixed_size c p = base_bet c * tier p"
  by (simp add: fixed_size_def tier_def)

lemma tier_antimono: "p1 \<le> p2 \<Longrightarrow> tier p2 \<le> tier p1"
  by (simp add: tier_def)

lemma fixed_size_antimono:
  "0 \<le> base_bet c \<Longrightarrow> p1 \<le> p2 \<Longrightarrow> fixed_size c p2 \<le> fixed_size c p1"
  by (simp add: fixed_size_tier mult_left_mono tier_antimono)

lemma round_nd_cents: "round_nd 2 (of_int k / 100) = of_int k / 100"
  using py_round_of_int [of k] by (simp add: round_nd_def)

lemma default_fixed:
  "sizing_mode default_config = ''fixed''" "base_bet default_config = 5"
  "min_bet default_config = 3" "max_bet default_config = 50"
  by (simp_all add: default_config_def)

lemma negative_fixed:
  "sizing_mode negative_config = ''fixed''" "base_bet negative_config = - 5"
  "min_bet negative_config = - 100" "max_bet negative_config = 50"
  by (simp_all add: negative_config_def default_config_def)

text \<open>
  C8, as the code has it. In fixed mode the size after the limits, before the
  loss-streak reduction and the rounding, is the base bet times 1.5 below 0.40, times
  1.0 below 0.50, times 0.75 below 0.55 and times 0.5 from there on, under
  \<open>max(min_bet, min(max_bet, _))\<close>; \<open>get_position_size\<close> returns that size after the
  loss-streak reduction, rounded to two decimals, and that size rounded to two decimals
  when there are fewer than three consecutive losses. For a base bet that is not
  negative, neither the size after the limits nor the returned size increases with the
  entry price.
\<close>

theorem fixed_size_step_function:
  "sizing_mode (cfg rm) = ''fixed'' \<longrightarrow>
     apply_limits (cfg rm) (mode_size (cfg rm) p dir strat bankroll)
       = max (min_bet (cfg rm)) (min (max_bet (cfg rm))
           (if p < 0.40 then base_bet (cfg rm) * 1.5
            else if p < 0.50 then base_bet (cfg rm) * 1.0
            else if p < 0.55 then base_bet (cfg rm) * 0.75
            else base_bet (cfg rm) * 0.5))
     \<and> get_position_size rm p dir strat bankroll
       = round_nd 2 (loss_reduction (consecutive_losses rm)
           (max (min_bet (cfg rm)) (min (max_bet (cfg rm))
              (if p < 0.40 then base_bet (cfg rm) * 1.5
               else if p < 0.50 then base_bet (cfg rm) * 1.0
               else if p < 0.55 then base_bet (cfg rm) * 0.75
               else base_bet (cfg rm) * 0.5))))
     \<and> (consecutive_losses rm < 3 \<longrightarrow>
          get_position_size rm p dir strat bankroll
            = round_nd 2 (max (min_bet (cfg rm)) (min (max_bet (cfg rm))
                (if p < 0.40 then base_bet (cfg rm) * 1.5
                 else if p < 0.50 then base_bet (cfg rm) * 1.0
                 else if p < 0.55 then base_bet (cfg rm) * 0.75
                 else base_bet (cfg rm) * 0.5))))
     \<and> (0 \<le> base_bet (cfg rm) \<and> p1 \<le> p2 \<longrightarrow>
          apply_limits (cfg rm) (mode_size (cfg rm) p2 dir strat bankroll)
            \<le> apply_limits (cfg rm) (mode_size (cfg rm) p1 dir strat bankroll)
          \<and> get_position_size rm p2 dir strat bankroll
            \<le> get_position_size rm p1 dir strat bankroll)"
proof (intro impI)
  assume m: "sizing_mode (cfg rm) = ''fixed''"
  let ?F = "max (min_bet (cfg rm)) (min (max_bet (cfg rm))
           (if p < 0.40 then base_bet (cfg rm) * 1.5
            else if p < 0.50 then base_bet (cfg rm) * 1.0
            else if p < 0.55 then base_bet (cfg rm) * 0.75
            else base_bet (cfg rm) * 0.5))"
  have f: "apply_limits (cfg rm) (mode_size (cfg rm) p dir strat bankroll) = ?F"
    using m by (simp add: apply_limits_def mode_size_def fixed_size_def)
  have g: "get_position_size rm p dir strat bankroll
       = round_nd 2 (loss_reduction (consecutive_losses rm) ?F)"
    by (simp only: get_position_size_def f)
  have r: "consecutive_losses rm < 3 \<longrightarrow>
       get_position_size rm p dir strat bankroll = round_nd 2 ?F"
  proof
    assume "consecutive_losses rm < 3"
    then have "loss_reduction (consecutive_losses rm) ?F = ?F"
      by (simp add: loss_reduction_def)
    with g show "get_position_size rm p dir strat bankroll = round_nd 2 ?F"
      by (simp only:)
  qed
  have mono: "0 \<le> base_bet (cfg rm) \<and> p1 \<le> p2 \<longrightarrow>
          apply_limits (cfg rm) (mode_size (cfg rm) p2 dir strat bankroll)
            \<le> apply_limits (cfg rm) (mode_size (cfg rm) p1 dir strat bankroll)
          \<and> get_position_size rm p2 dir strat bankroll
            \<le> get_position_size rm p1 dir strat bankroll"
  proof
    assume h: "0 \<le> base_bet (cfg rm) \<and> p1 \<le> p2"
    then have "fixed_size (cfg rm) p2 \<le> fixed_size (cfg rm) p1"
      by (simp add: fixed_size_antimono)
    with m have "mode_size (cfg rm) p2 dir strat bankroll
        \<le> mode_size (cfg rm) p1 dir strat bankroll"
      by (simp add: mode_size_def)
    then have a: "apply_limits (cfg rm) (mode_size (cfg rm) p2 dir strat bankroll)
        \<le> apply_limits (cfg rm) (mode_size (cfg rm) p1 dir strat bankroll)"
      by (rule apply_limits_mono)
    have b: "get_position_size rm p2 dir strat bankroll
        \<le> get_position_size rm p1 dir strat bankroll"
      unfolding get_position_size_def
      by (intro round_nd_mono loss_reduction_mono a)
    from a b show "apply_limits (cfg rm) (mode_size (cfg rm) p2 dir strat bankroll)
            \<le> apply_limits (cfg rm) (mode_size (cfg rm) p1 dir strat bankroll)
          \<and> get_position_size rm p2 dir strat bankroll
            \<le> get_position_size rm p1 dir strat bankroll" ..
  qed
  show "apply_limits (cfg rm) (mode_size (cfg rm) p dir strat bankroll) = ?F
     \<and> get_position_size rm p dir strat bankroll
       = round_nd 2 (loss_reduction (consecutive_losses rm) ?F)
     \<and> (consecutive_losses rm < 3 \<longrightarrow>
          get_position_size rm p dir strat bankroll = round_nd 2 ?F)
     \<and> (0 \<le> base_bet (cfg rm) \<and> p1 \<le> p2 \<longrightarrow>
          apply_limits (cfg rm) (mode_size (cfg rm) p2 dir strat bankroll)
            \<le> apply_limits (cfg rm) (mode_size (cfg rm) p1 dir strat bankroll)
          \<and> get_position_size rm p2 dir strat bankroll
            \<le> get_position_size rm p1 dir strat bankroll)"
    by (rule conjI [OF f conjI [OF g conjI [OF r mono]]])
qed

theorem fixed_size_step_function_witness:
  "sizing_mode (cfg \<lparr> cfg = default_config, consecutive_losses = 0 \<rparr>) = ''fixed''
   \<and> consecutive_losses \<lparr> cfg = default_config, consecutive_losses = 0 \<rparr> < 3
   \<and> 0 \<le> base_bet (cfg \<lparr> cfg = default_config, consecutive_losses = 0 \<rparr>)
   \<and> (0.35::real) \<le> 0.60
   \<and> get_position_size \<lparr> cfg = default_config, consecutive_losses = 0 \<rparr>
        0.35 ''long'' ''default'' None = 7.5
   \<and> get_position_size \<lparr> cfg = default_config, consecutive_losses = 0 \<rparr>
        0.45 ''long'' ''default'' None = 5
   \<and> get_position_size \<lparr> cfg = default_config, consecutive_losses = 0 \<rparr>
        0.52 ''long'' ''default'' None = 3.75
   \<and> get_position_size \<lparr> cfg = default_config, consecutive_losses = 0 \<rparr>
        0.60 ''long'' ''default'' None = 3
   \<and> get_position_size \<lparr> cfg = default_config, consecutive_losses = 0 \<rparr>
        0.60 ''long'' ''default'' None
       \<le> get_position_size \<lparr> cfg = default_config, consecutive_losses = 0 \<rparr>
            0.35 ''long'' ''default'' None"
  using
    fixed_size_step_function [of "\<lparr> cfg = default_config, consecutive_losses = 0 \<rparr>"
      "0.35" "''long''" "''default''" None "0.35" "0.60"]
    fixed_size_step_function [of "\<lparr> cfg = default_config, consecutive_losses = 0 \<rparr>"
      "0.45" "''long''" "''default''" None "0.35" "0.60"]
    fixed_size_step_function [of "\<lparr> cfg = default_config, consecutive_losses = 0 \<rparr>"
      "0.52" "''long''" "''default''" None "0.35" "0.60"]
    fixed_size_step_function [of "\<lparr> cfg = default_config, consecutive_losses = 0 \<rparr>"
      "0.60" "''long''" "''default''" None "0.35" "0.60"]
    round_nd_cents [of 750] round_nd_cents [of 500] round_nd_cents [of 375]
    round_nd_cents [of 300]
  by (simp add: default_fixed)

text \<open>
  C8, as stated, fails for a negative base bet: with a base bet of -5 and a minimum bet
  of -100 the returned size is -7.5 at an entry price of 0.35 and -2.5 at 0.60, so the
  size at the lower price is the smaller one.
\<close>

theorem fixed_size_negative_base_counterexample:
  "sizing_mode negative_config = ''fixed''
   \<and> (0.35::real) \<le> 0.60
   \<and> get_position_size \<lparr> cfg = negative_config, consecutive_losses = 0 \<rparr>
        0.35 ''long'' ''default'' None = - 7.5
   \<and> get_position_size \<lparr> cfg = negative_config, consecutive_losses = 0 \<rparr>
        0.60 ''long'' ''default'' None = - 2.5
   \<and> \<not> (get_position_size \<lparr> cfg = negative_config, consecutive_losses = 0 \<rparr>
            0.60 ''long'' ''default'' None
          \<le> get_position_size \<lparr> cfg = negative_config, consecutive_losses = 0 \<rparr>
               0.35 ''long'' ''default'' None)"
  using round_nd_cents [of "- 750"] round_nd_cents [of "- 250"]
  by (simp add: get_position_size_def loss_reduction_def apply_limits_def mode_size_def
      fixed_size_def negative_fixed)

subsection \<open>Kelly sizing\<close>

lemma kelly_size_cases:
  "kelly_size c bankroll w e f = min_bet c \<or> kelly_size c bankroll w e f \<le> bankroll * 0.10"
  by (auto simp only: kelly_size_def Let_def min.cobounded2 split: if_splits)

lemma kelly_size_le: "kelly_size c bankroll w e f \<le> max (min_bet c) (bankroll * 0.10)"
  using kelly_size_cases [of c bankroll w e f] by (auto simp: max_def)

lemma apply_limits_le: "x \<le> max (min_bet c) y \<Longrightarrow> apply_limits c x \<le> max (min_bet c) y"
  by (auto simp: apply_limits_def max_def min_def)

lemma kelly_example: "kelly_size c 1000 0.6 0.4 0.5 = 100"
  by (simp add: kelly_size_def Let_def)

text \<open>
  C3, as the code has it. \<open>_kelly_size\<close> returns the minimum bet (its fallback) or a
  stake of at most 10% of the bankroll, and 100 for a win rate of 0.6, an entry price of
  0.4, a bankroll of 1000 and a fraction of 0.5. In kelly mode, with a positive bankroll
  and fewer than three consecutive losses, the size after the limits is at most the
  larger of the minimum bet and 10% of the bankroll, and \<open>get_position_size\<close> returns at
  most that bound rounded to two decimals.
\<close>

theorem kelly_size_capped:
  "(kelly_size c bankroll w e f = min_bet c \<or> kelly_size c bankroll w e f \<le> bankroll * 0.10)
   \<and> kelly_size c 1000 0.6 0.4 0.5 = 100
   \<and> (sizing_mode (cfg rm) = ''kelly'' \<and> 0 < bankroll \<and> consecutive_losses rm < 3 \<longrightarrow>
        apply_limits (cfg rm) (mode_size (cfg rm) e dir strat (Some bankroll))
          \<le> max (min_bet (cfg rm)) (bankroll * 0.10)
        \<and> get_position_size rm e dir strat (Some bankroll)
          \<le> round_nd 2 (max (min_bet (cfg rm)) (bankroll * 0.10)))"
proof (intro conjI impI)
  show "kelly_size c bankroll w e f = min_bet c \<or> kelly_size c bankroll w e f \<le> bankroll * 0.10"
    by (rule kelly_size_cases)
  show "kelly_size c 1000 0.6 0.4 0.5 = 100" by (rule kelly_example)
  assume h: "sizing_mode (cfg rm) = ''kelly'' \<and> 0 < bankroll \<and> consecutive_losses rm < 3"
  then have "mode_size (cfg rm) e dir strat (Some bankroll) \<le> max (min_bet (cfg rm)) (bankroll * 0.10)"
    using kelly_size_le [of "cfg rm" bankroll _ e "0.5"]
    by (simp add: mode_size_def truthy_def Let_def)
  then show a: "apply_limits (cfg rm) (mode_size (cfg rm) e dir strat (Some bankroll))
          \<le> max (min_bet (cfg rm)) (bankroll * 0.10)"
    by (rule apply_limits_le)
  from h have "get_position_size rm e dir strat (Some bankroll)
      = round_nd 2 (apply_limits (cfg rm) (mode_size (cfg rm) e dir strat (Some bankroll)))"
    by (simp add: get_position_size_def loss_reduction_def)
  with a show "get_position_size rm e dir strat (Some bankroll)
          \<le> round_nd 2 (max (min_bet (cfg rm)) (bankroll * 0.10))"
    by (simp add: round_nd_mono)
qed

lemma kelly_config_fields:
  "sizing_mode kelly_config = ''kelly''" "min_bet kelly_config = 3" "max_bet kelly_config = 50"
  "win_rates kelly_config = []" "default_win_rate kelly_config = 0.6"
  by (simp_all add: kelly_config_def default_config_def)

lemma round_nd_numeral: "round_nd n (numeral k) = numeral k"
proof -
  have "py_round (numeral k * 10 ^ n) = numeral k * 10 ^ n"
    using py_round_of_int [of "numeral k * 10 ^ n"] by simp
  then show ?thesis by (simp add: round_nd_def)
qed

theorem kelly_size_capped_witness:
  "sizing_mode (cfg \<lparr> cfg = kelly_config, consecutive_losses = 0 \<rparr>) = ''kelly''
   \<and> (0::real) < 1000
   \<and> consecutive_losses \<lparr> cfg = kelly_config, consecutive_losses = 0 \<rparr> < 3
   \<and> get_position_size \<lparr> cfg = kelly_config, consecutive_losses = 0 \<rparr> 0.4 ''long'' ''default''
        (Some 1000) \<le> 100"
  using kelly_size_capped [of kelly_config 1000 "0.6" "0.4" "0.5"
      "\<lparr> cfg = kelly_config, consecutive_losses = 0 \<rparr>" "''long''" "''default''"]
  by (simp add: kelly_config_fields round_nd_numeral)

text \<open>
  C3, as stated, fails: with the default limits (minimum bet 3, maximum bet 50), a win
  rate of 0.6 and an entry price of 0.4, a bankroll of 10 gives a size of 3, more than
  10% of the bankroll; a bankroll of 1000 gives 50, not 100.
\<close>

theorem kelly_size_counterexample:
  "sizing_mode kelly_config = ''kelly''
   \<and> get_position_size \<lparr> cfg = kelly_config, consecutive_losses = 0 \<rparr> 0.4 ''long'' ''default''
        (Some 10) = 3
   \<and> \<not> (3 \<le> (0.10::real) * 10)
   \<and> get_position_size \<lparr> cfg = kelly_config, consecutive_losses = 0 \<rparr> 0.4 ''long'' ''default''
        (Some 1000) = 50"
  by (simp add: get_position_size_def loss_reduction_def apply_limits_def mode_size_def
      truthy_def kelly_size_def Let_def kelly_config_fields round_nd_numeral)

section \<open>Daily P&L and kill switch\<close>

lemma daily_pnl_loop_sum:
  "list_all (readable parse) ts \<Longrightarrow>
   daily_pnl_loop parse today ts acc
     = Inr (acc + sum_list (map pnl_or_zero (filter (created_on parse today) ts)))"
  by (induction ts arbitrary: acc)
     (auto simp: readable_def created_on_def pnl_or_zero_def)

text \<open>
  C4, as the code has it. When every resolved trade has a timestamp that parses and a
  \<open>pnl\<close>, \<open>_calculate_daily_pnl\<close> returns the sum of the stored \<open>pnl\<close> over exactly
  the resolved trades whose creation timestamp has today's date; the resolution time
  is not read.
\<close>

theorem daily_pnl_by_creation_date:
  "list_all (readable parse) (trades l) \<longrightarrow>
   calculate_daily_pnl parse today (Some l)
     = Inr (sum_list (map pnl_or_zero (filter (created_on parse today) (trades l))))"
  by (simp add: calculate_daily_pnl_def daily_pnl_loop_sum)

lemma round_nd_int: "round_nd n (of_int k) = of_int k"
proof -
  have "py_round (of_int k * 10 ^ n) = k * 10 ^ n"
    using py_round_of_int [of "k * 10 ^ n"] by simp
  then show ?thesis by (simp add: round_nd_def)
qed

lemma round_nd_m150: "round_nd 4 (- 150) = - 150"
  using round_nd_int [of 4 "- 150"] by simp

lemma round_nd_m600: "round_nd 4 (- 600) = - 600"
  using round_nd_int [of 4 "- 600"] by simp

lemma lost_first:
  "resolve_first ''2024-01-02T01:00:00+00:00'' ''T1'' ''loss'' (- 150) (trades (st one_trade_store))
     = Some [sample_trade\<lparr> resolved := True, result := Some ''loss'', pnl := Some (- 150),
                           resolution_time := Some ''2024-01-02T01:00:00+00:00'' \<rparr>]"
  by (simp add: trades_one sample_trade_def round_nd_m150)

lemma trades_lost:
  "trades (st lost_store)
     = [sample_trade\<lparr> resolved := True, result := Some ''loss'', pnl := Some (- 150),
                      resolution_time := Some ''2024-01-02T01:00:00+00:00'' \<rparr>]"
  unfolding lost_store_def using lost_first by (rule trades_resolve_trade)

lemma crashed_first:
  "resolve_first ''2024-01-02T01:00:00+00:00'' ''T1'' ''loss'' (- 600) (trades (st one_trade_store))
     = Some [sample_trade\<lparr> resolved := True, result := Some ''loss'', pnl := Some (- 600),
                           resolution_time := Some ''2024-01-02T01:00:00+00:00'' \<rparr>]"
  by (simp add: trades_one sample_trade_def round_nd_m600)

lemma totals_crashed:
  "totals (st crashed_store) = \<lparr> pnl_total = - 600, wins = 0, losses = 1, total_trades = 1 \<rparr>"
  unfolding crashed_store_def using totals_resolve_trade [OF crashed_first]
  by (simp add: totals_one)

lemma totals_lost:
  "totals (st lost_store) = \<lparr> pnl_total = - 150, wins = 0, losses = 1, total_trades = 1 \<rparr>"
  unfolding lost_store_def using totals_resolve_trade [OF lost_first]
  by (simp add: totals_one)

theorem daily_pnl_by_creation_date_witness:
  "list_all (readable iso_date) (trades (st lost_store))
   \<and> calculate_daily_pnl iso_date ''2024-01-01'' (Some (st lost_store)) = Inr (- 150)"
  using daily_pnl_by_creation_date [of iso_date "st lost_store" "''2024-01-01''"]
  by (simp add: trades_lost sample_trade_def readable_def created_on_def iso_date_def
      pnl_or_zero_def)

text \<open>
  C4, as stated, fails: the trade of \<open>lost_store\<close> was created on 2024-01-01 and
  resolved on 2024-01-02 with a \<open>pnl\<close> of -150. On 2024-01-02 the sum by resolution date
  is -150 and the code returns 0; on 2024-01-01 the sum by resolution date is 0 and the
  code returns -150.
\<close>

theorem daily_pnl_resolution_date_counterexample:
  "resolution_time (hd (trades (st lost_store))) = Some ''2024-01-02T01:00:00+00:00''
   \<and> timestamp (hd (trades (st lost_store))) = ''2024-01-01T23:00:00+00:00''
   \<and> daily_pnl_by_resolution iso_date ''2024-01-02'' (st lost_store) = - 150
   \<and> calculate_daily_pnl iso_date ''2024-01-02'' (Some (st lost_store)) = Inr 0
   \<and> daily_pnl_by_resolution iso_date ''2024-01-01'' (st lost_store) = 0
   \<and> calculate_daily_pnl iso_date ''2024-01-01'' (Some (st lost_store)) = Inr (- 150)"
  by (simp add: calculate_daily_pnl_def daily_pnl_by_resolution_def resolved_on_def
      trades_lost sample_trade_def iso_date_def pnl_or_zero_def)

text \<open>
  C5, as the code has it. Without a store \<open>check_kill_switch\<close> returns True. With a
  store, a total P&L below the limit raises KillSwitchTriggered; and whenever the daily
  P&L is computed, the call signals the outcome the specified order gives (total loss,
  then daily loss, then loss streak, then open positions): HardStop by raising
  KillSwitchTriggered, Pause by returning False, Continue by returning True.
\<close>

theorem check_kill_switch_signals:
  "check_kill_switch parse today rm None = Inr True
   \<and> (pnl_total (totals l) < - max_total_loss (cfg rm) \<longrightarrow>
        check_kill_switch parse today rm (Some l)
          = Inl (KillSwitchTriggered (TotalLossLimit (pnl_total (totals l)))))
   \<and> (calculate_daily_pnl parse today (Some l) = Inr d \<longrightarrow>
        signalled (check_kill_switch parse today rm (Some l))
          = Some (kill_switch_spec (cfg rm) (pnl_total (totals l)) d (consecutive_losses rm)
                    (int (length (get_unresolved_trades l))))
        \<and> (check_kill_switch parse today rm (Some l) = Inr True
             \<or> check_kill_switch parse today rm (Some l) = Inr False
             \<or> (\<exists>r. check_kill_switch parse today rm (Some l) = Inl (KillSwitchTriggered r))))"
  by (simp add: check_kill_switch_def kill_switch_spec_def)

theorem check_kill_switch_signals_witness:
  "pnl_total (totals (st crashed_store)) < - max_total_loss (cfg \<lparr> cfg = default_config, consecutive_losses = 0 \<rparr>)
   \<and> calculate_daily_pnl iso_date ''2024-01-02'' (Some (st lost_store)) = Inr 0
   \<and> signalled (check_kill_switch iso_date ''2024-01-02'' \<lparr> cfg = default_config, consecutive_losses = 0 \<rparr>
        (Some (st crashed_store))) = Some (HardStop (TotalLossLimit (- 600)))
   \<and> signalled (check_kill_switch iso_date ''2024-01-02'' \<lparr> cfg = default_config, consecutive_losses = 5 \<rparr>
        (Some (st lost_store))) = Some Pause
   \<and> signalled (check_kill_switch iso_date ''2024-01-02'' \<lparr> cfg = default_config, consecutive_losses = 0 \<rparr>
        (Some (st lost_store))) = Some Continue"
proof -
  have d: "calculate_daily_pnl iso_date ''2024-01-02'' (Some (st lost_store)) = Inr 0"
    by (simp add: calculate_daily_pnl_def trades_lost sample_trade_def iso_date_def)
  have c: "pnl_total (totals (st crashed_store)) < - max_total_loss (cfg \<lparr> cfg = default_config, consecutive_losses = 0 \<rparr>)"
    by (simp add: totals_crashed default_config_def)
  have u: "get_unresolved_trades (st lost_store) = []"
    by (simp add: get_unresolved_trades_def trades_lost)
  from c d u
    check_kill_switch_signals [of iso_date "''2024-01-02''" "\<lparr> cfg = default_config, consecutive_losses = 0 \<rparr>" "st crashed_store" 0]
    check_kill_switch_signals [of iso_date "''2024-01-02''" "\<lparr> cfg = default_config, consecutive_losses = 5 \<rparr>" "st lost_store" 0]
    check_kill_switch_signals [of iso_date "''2024-01-02''" "\<lparr> cfg = default_config, consecutive_losses = 0 \<rparr>" "st lost_store" 0]
  show ?thesis
    by (simp add: kill_switch_spec_def totals_lost totals_crashed default_config_def)
qed

text \<open>
  C5, as stated, fails: with a total P&L of -600 and the default limit of 500 the call
  does not return, it raises KillSwitchTriggered.
\<close>

theorem check_kill_switch_raises_counterexample:
  "check_kill_switch iso_date ''2024-01-02'' \<lparr> cfg = default_config, consecutive_losses = 0 \<rparr>
     (Some (st crashed_store)) = Inl (KillSwitchTriggered (TotalLossLimit (- 600)))"
  by (simp add: check_kill_switch_def totals_crashed default_config_def)

section \<open>Order execution\<close>

lemma upt_3: "[0..<3] = [0, 1, 2]"
  by (simp add: upt_rec)

lemma default_executor_fields:
  "max_retries default_executor = 3" "retry_delay default_executor = 2"
  "ex_max_spread default_executor = 0.10" "ex_max_entry_price default_executor = 0.60"
  by (simp_all add: default_executor_def)

text \<open>
  C6 at a concrete venue. With three attempts and a retry delay of 2, two submissions
  without an order id followed by a matched order make no sleep at all, where two
  submissions that raise make the sleeps 2 and 4.
\<close>

theorem retry_without_order_id_skips_backoff:
  "execute_with_retry default_executor silent_venue ''K1'' 0.4 12.5 ''buy'' = (matched, [])
   \<and> execute_with_retry default_executor raising_venue ''K1'' 0.4 12.5 ''buy'' = (matched, [2, 4])"
  by (simp add: execute_with_retry_def default_executor_fields upt_3 silent_venue_def
      raising_venue_def py_or_def falsy_def backoff_def matched_def)

text \<open>
  C10. For every orderbook with an ask of 0 whose spread is within the maximum and
  whose ask does not exceed the maximum price (a maximum that is not negative),
  \<open>execute_buy\<close> raises ZeroDivisionError: it returns no ExecutionResult.
\<close>

theorem execute_buy_zero_ask:
  "get_orderbook v tok = Inr book \<and> ask book = 0 \<and> spread book \<le> ex_max_spread ex
     \<and> 0 \<le> price_or max_price (ex_max_entry_price ex)
   \<longrightarrow> execute_buy ex v tok amount max_price = Inl ZeroDivisionError"
  by (simp add: execute_buy_def Let_def)

theorem execute_buy_zero_ask_witness:
  "get_orderbook zero_ask_venue ''K1'' = Inr \<lparr> bid = 0, ask = 0, spread = 0 \<rparr>
   \<and> ask \<lparr> bid = 0, ask = 0, spread = 0 \<rparr> = 0
   \<and> spread \<lparr> bid = 0, ask = 0, spread = 0 \<rparr> \<le> ex_max_spread default_executor
   \<and> 0 \<le> price_or None (ex_max_entry_price default_executor)
   \<and> execute_buy default_executor zero_ask_venue ''K1'' 5 None = Inl ZeroDivisionError"
  using execute_buy_zero_ask [of zero_ask_venue "''K1''" "\<lparr> bid = 0, ask = 0, spread = 0 \<rparr>"
      default_executor None 5]
  by (simp add: zero_ask_venue_def default_executor_fields price_or_def)

section \<open>Loading and saving\<close>

lemma opt_str_json_inj: "opt_str_json a = opt_str_json b \<Longrightarrow> a = b"
  by (auto simp: opt_str_json_def split: option.splits)

text \<open>
  C7 at concrete files. A file holding the JSON array \<open>[]\<close>, or an object whose
  \<open>totals\<close> is a number, makes \<open>_load\<close> raise TypeError; a missing file, a file that
  is not JSON and an object without \<open>totals\<close> or without \<open>totals.total_trades\<close> give
  the default state.
\<close>

theorem load_raises_type_error:
  "load now (Doc (JArr [])) = Inl TypeError
   \<and> load now (Doc (JObj [(''totals'', JInt 5)])) = Inl TypeError
   \<and> load now NoFile = Inr (ledger_json (default_state now))
   \<and> load now NotJson = Inr (ledger_json (default_state now))
   \<and> load now (Doc (JObj [])) = Inr (ledger_json (default_state now))
   \<and> load now (Doc (JObj [(''totals'', JObj [])])) = Inr (ledger_json (default_state now))"
  by (simp add: load_def)

lemma opt_float_json_inj: "opt_float_json a = opt_float_json b \<Longrightarrow> a = b"
  by (auto simp: opt_float_json_def split: option.splits)

lemma trade_json_inj: "trade_json t = trade_json t' \<Longrightarrow> t = t'"
  by (cases t, cases t')
     (auto simp: trade_json_def dest: opt_str_json_inj opt_float_json_inj)

lemma map_trade_json_inj: "map trade_json ts = map trade_json ts' \<Longrightarrow> ts = ts'"
  using trade_json_inj by (simp add: inj_on_def list.inj_map_strong)

lemma totals_json_inj: "totals_json t = totals_json t' \<Longrightarrow> t = t'"
  by (cases t, cases t') (simp add: totals_json_def)

lemma ledger_json_trades:
  "py_getitem (ledger_json l) ''trades'' = Inr (JArr (map trade_json (trades l)))"
  by (simp add: ledger_json_def)

lemma ledger_json_totals:
  "py_getitem (ledger_json l) ''totals'' = Inr (totals_json (totals l))"
  by (simp add: ledger_json_def)

lemma load_ledger_json: "load now (Doc (ledger_json l)) = Inr (ledger_json l)"
  by (simp add: load_def ledger_json_def totals_json_def)

lemma disk_save: "disk (save now s) = Doc (ledger_json ((st s)\<lparr> last_saved := Some now \<rparr>))"
  by (simp add: save_def Let_def)

text \<open>
  C9. After \<open>save\<close>, \<open>_load\<close> returns the document of the saved state, whose trades
  and totals are those of the state before the save; and any ledger whose document is
  the loaded one has the same trades and the same totals.
\<close>

theorem save_load_round_trip:
  "load later (disk (save now s)) = Inr (ledger_json (st (save now s)))
   \<and> trades (st (save now s)) = trades (st s)
   \<and> totals (st (save now s)) = totals (st s)
   \<and> (load later (disk (save now s)) = Inr (ledger_json l') \<longrightarrow>
        trades l' = trades (st s) \<and> totals l' = totals (st s))"
proof (intro conjI impI)
  show a: "load later (disk (save now s)) = Inr (ledger_json (st (save now s)))"
    by (simp add: disk_save st_save load_ledger_json)
  show "trades (st (save now s)) = trades (st s)" by (simp add: st_save)
  show "totals (st (save now s)) = totals (st s)" by (simp add: st_save)
  assume "load later (disk (save now s)) = Inr (ledger_json l')"
  with a have e: "ledger_json l' = ledger_json (st (save now s))" by simp
  have "py_getitem (ledger_json l') ''trades'' = py_getitem (ledger_json (st (save now s))) ''trades''"
    using e by simp
  then have "map trade_json (trades l') = map trade_json (trades (st (save now s)))"
    by (simp only: ledger_json_trades sum.inject json.inject)
  then show "trades l' = trades (st s)"
    by (simp add: map_trade_json_inj st_save)
  have "py_getitem (ledger_json l') ''totals'' = py_getitem (ledger_json (st (save now s))) ''totals''"
    using e by simp
  then have "totals_json (totals l') = totals_json (totals (st (save now s)))"
    by (simp only: ledger_json_totals sum.inject)
  then show "totals l' = totals (st s)"
    by (simp add: totals_json_inj st_save)
qed

theorem save_load_round_trip_witness:
  "load ''2024-01-03T00:00:00+00:00'' (disk (save ''2024-01-02T03:00:00+00:00'' won_store))
     = Inr (ledger_json (st (save ''2024-01-02T03:00:00+00:00'' won_store)))
   \<and> trades (st (save ''2024-01-02T03:00:00+00:00'' won_store)) = trades (st won_store)
   \<and> totals (st (save ''2024-01-02T03:00:00+00:00'' won_store))
       = \<lparr> pnl_total = 1, wins = 1, losses = 0, total_trades = 1 \<rparr>"
  using save_load_round_trip [of "''2024-01-03T00:00:00+00:00''" "''2024-01-02T03:00:00+00:00''"
      won_store "st (save ''2024-01-02T03:00:00+00:00'' won_store)"]
  by (simp add: totals_won)

end
